theory Spec2Isabelle
  imports Main "HOL-Library.Word"
begin

section \<open>Data model of the node (server.go)\<close>

text \<open>
  Addresses are modelled by the text their \<^verbatim>\<open>String()\<close> method prints: the source
  compares addresses through \<^verbatim>\<open>String()\<close> only. A Go \<^verbatim>\<open>error\<close> value is
  a message; a nil error is \<open>None\<close>.
\<close>

type_synonym addr = string

type_synonym bytes = "8 word list"

datatype error = Error string

text \<open>The roles \<^verbatim>\<open>raft.State()\<close> reports.\<close>

datatype RaftState = Follower | Candidate | Leader | Shutdown

text \<open>
  \<^verbatim>\<open>Result{value, err}\<close>: the outcome delivered on a callback's channel.
\<close>

record Result =
  Response :: "bytes option"
  Err :: "error option"

text \<open>
  A channel is named by a number; the store \<open>chans\<close> of the node maps it to the Results
  sent on it so far, oldest first.
\<close>

type_synonym chan = nat

record commandCallback =
  originAddr :: addr
  reqNo :: nat
  result :: chan

text \<open>
  The log entry \<^verbatim>\<open>bytesForCommand(originAddr, reqNo, cmd, args)\<close> serialises; the
  serialisation itself is not part of server.go, so the entry is kept as the tuple it encodes.
\<close>

record logEntry =
  entryOrigin :: addr
  entryReqNo :: nat
  entryCmd :: string
  entryArgs :: "bytes list"

definition bytesForCommand :: "addr \<Rightarrow> nat \<Rightarrow> string \<Rightarrow> bytes list \<Rightarrow> logEntry" where
  "bytesForCommand origin n cmd args =
     \<lparr>entryOrigin = origin, entryReqNo = n, entryCmd = cmd, entryArgs = args\<rparr>"

text \<open>
  The Consensus Module (\<^verbatim>\<open>*raft.Raft\<close>) is an external library. The node sees the
  role and the leader address it reports, and the peer set it owns; \<open>raftCalls\<close> records, in
  order, every request the node has submitted to it.
\<close>

datatype raftCall = CallApply logEntry nat | CallRemovePeer addr | CallShutdown

record raftConfig =
  EnableSingleNode :: bool

record raftNode =
  raftState :: RaftState
  raftLeader :: "addr option"
  raftPeers :: "addr list"
  raftConf :: raftConfig
  raftCalls :: "raftCall list"

text \<open>
  \<^verbatim>\<open>connToLeader\<close>: the cached connection to the leader, with the remote address it
  was dialled against and whether its socket has been closed.
\<close>

record connToLeader =
  remoteAddr :: addr
  connClosed :: bool

text \<open>An executor of the command registry (the Go type \<^verbatim>\<open>Command\<close>).\<close>

type_synonym executor = "bytes list \<Rightarrow> Result"

text \<open>
  \<^verbatim>\<open>flotillaState\<close>: the State Machine, with its address, its request counter, the
  pending-callback table and the command registry it was built with.
\<close>

record flotillaState =
  stateAddr :: addr
  reqCounter :: nat
  callbacks :: "(addr \<times> nat) \<rightharpoonup> commandCallback"
  commandsReg :: "string \<rightharpoonup> executor"

text \<open>
  The \<^verbatim>\<open>server\<close> struct. \<open>chans\<close> and \<open>nextChan\<close> are the channels allocated so far
  (the part of the Go heap the claims are about); \<open>lg\<close> holds, in order and without the
  final newline, the lines that the code of server.go writes to the logger (the libraries that
  share the logger write lines of their own, which are not modelled).
\<close>

record server =
  raft :: raftNode
  state :: flotillaState
  peers :: "string list"
  leaderConn :: "connToLeader option"
  chans :: "chan \<rightharpoonup> Result list"
  nextChan :: chan
  lg :: "string list"

text \<open>
  The places where dispatchToLeader calls \<^verbatim>\<open>s.Leader()\<close>, in the order it reaches them:
  the nil test and the comparison of the reconnect condition, the "Leader changed" log line,
  the argument of \<^verbatim>\<open>Dial\<close>, the error message after a failed dial, and the log line
  after a failed handshake. Each call reads the Consensus Module anew.
\<close>

datatype leaderRead =
  AtNilTest | AtCompare | AtChangeLog | AtDial | AtDialError | AtHandshakeLog

text \<open>
  What the environment answers during one call: the outcome of
  \<^verbatim>\<open>rpcLayer.Dial\<close> for an address (a \<^verbatim>\<open>net.Conn\<close>, named by the address
  it was dialled to, or an error), of \<^verbatim>\<open>newConnToLeader\<close> on the dialled
  connection, of \<^verbatim>\<open>forwardCommand\<close> on a connection, and the error of the future
  \<^verbatim>\<open>raft.RemovePeer\<close> returns. The Consensus Module runs beside the call and may
  change the leader it reports while the call is under way: \<open>leaderChange e r = Some l\<close> says
  that by the read at place \<open>r\<close> it has come to report \<open>l\<close> (\<open>None\<close> for no leader), and
  \<open>leaderChange e r = None\<close> that its report is the one of the previous read.
\<close>

datatype conn = Conn addr

record env =
  dial :: "addr \<Rightarrow> error + conn"
  newConnToLeader :: "conn \<Rightarrow> error + connToLeader"
  forwardCommand :: "connToLeader \<Rightarrow> commandCallback \<Rightarrow> string \<Rightarrow> bytes list \<Rightarrow> error option"
  removePeerFuture :: "addr \<Rightarrow> error option"
  leaderChange :: "leaderRead \<Rightarrow> addr option option"

text \<open>A call either returns a value with the node's new state, or the process panics.\<close>

datatype fault = NilDereference

datatype 'a outcome = Fault fault | Returned 'a server

section \<open>Leader, IsLeader, RemovePeer\<close>

definition server_Leader :: "server \<Rightarrow> addr option" where
  "server_Leader s = raftLeader (raft s)"

definition IsLeader :: "server \<Rightarrow> bool" where
  "IsLeader s = (raftState (raft s) = Leader)"

text \<open>
  \<^verbatim>\<open>raft.RemovePeer(addr).Error()\<close>: the request reaches the Consensus Module, which
  answers with the future's error; the module drops the peer when the future succeeds.
\<close>

definition raft_RemovePeer :: "env \<Rightarrow> raftNode \<Rightarrow> addr \<Rightarrow> error option \<times> raftNode" where
  "raft_RemovePeer e r a =
     (case removePeerFuture e a of
        None \<Rightarrow> (None, r\<lparr>raftPeers := removeAll a (raftPeers r),
                          raftCalls := raftCalls r @ [CallRemovePeer a]\<rparr>)
      | Some err \<Rightarrow> (Some err, r\<lparr>raftCalls := raftCalls r @ [CallRemovePeer a]\<rparr>))"

definition RemovePeer :: "env \<Rightarrow> server \<Rightarrow> addr \<Rightarrow> error option \<times> server" where
  "RemovePeer e s deadPeer =
     (if IsLeader s
      then (let (err, r) = raft_RemovePeer e (raft s) deadPeer in (err, s\<lparr>raft := r\<rparr>))
      else (None, s))"

section \<open>The State Machine's callback table\<close>

definition send :: "chan \<Rightarrow> Result \<Rightarrow> server \<Rightarrow> server" where
  "send c r s =
     s\<lparr>chans := (chans s)(c \<mapsto> (case chans s c of None \<Rightarrow> [r] | Some rs \<Rightarrow> rs @ [r]))\<rparr>"

text \<open>\<^verbatim>\<open>make(chan Result, 1)\<close>: a fresh, empty channel.\<close>

definition makeChan :: "server \<Rightarrow> chan \<times> server" where
  "makeChan s =
     (nextChan s, s\<lparr>chans := (chans s)(nextChan s \<mapsto> []), nextChan := Suc (nextChan s)\<rparr>)"

text \<open>
  Modelled from the spec: \<^verbatim>\<open>newCommand()\<close> of the State Machine (state.go is not among
  the sources). It allocates the next request number from the per-process counter, registers a
  new callback under (own address, that number) and returns it; the callback has a result
  channel of its own.
\<close>

definition newCommand :: "server \<Rightarrow> commandCallback \<times> server" where
  "newCommand s =
     (let (c, s1) = makeChan s;
          st = state s1;
          n = Suc (reqCounter st);
          cb = \<lparr>originAddr = stateAddr st, reqNo = n, result = c\<rparr>
      in (cb, s1\<lparr>state := st\<lparr>reqCounter := n,
                                callbacks := (callbacks st)((stateAddr st, n) \<mapsto> cb)\<rparr>\<rparr>))"

definition cancelledErr :: error where
  "cancelledErr = Error ''cancelled''"

definition cancelResult :: Result where
  "cancelResult = \<lparr>Response = None, Err = Some cancelledErr\<rparr>"

text \<open>
  Modelled from the spec: \<^verbatim>\<open>cancel()\<close> of a callback (state.go is not among the sources).
  It checks that the callback is still pending; if so it removes the entry and
  delivers a definitive error on the callback's channel, otherwise it does nothing.
\<close>

definition cancel :: "commandCallback \<Rightarrow> server \<Rightarrow> server" where
  "cancel cb s =
     (let st = state s; key = (originAddr cb, reqNo cb)
      in case callbacks st key of
           None \<Rightarrow> s
         | Some _ \<Rightarrow>
             send (result cb) cancelResult
               (s\<lparr>state := st\<lparr>callbacks := (callbacks st)(key := None)\<rparr>\<rparr>))"

text \<open>
  Modelled from the spec: \<^verbatim>\<open>Apply(entry)\<close> of the State Machine (state.go is not among
  the sources). The executor registered for the command name produces the Result (an unknown
  name gives an error Result); then (origin, request number) is looked up in the pending
  table: a present callback receives the Result and is removed, an absent one means the
  command came from another node and the Result is dropped.
\<close>

definition fsmApply :: "logEntry \<Rightarrow> server \<Rightarrow> server" where
  "fsmApply en s =
     (let st = state s;
          r = (case commandsReg st (entryCmd en) of
                 None \<Rightarrow> \<lparr>Response = None, Err = Some (Error ''unknown command'')\<rparr>
               | Some ex \<Rightarrow> ex (entryArgs en));
          key = (entryOrigin en, entryReqNo en)
      in case callbacks st key of
           None \<Rightarrow> s
         | Some cb \<Rightarrow> send (result cb) r (s\<lparr>state := st\<lparr>callbacks := (callbacks st)(key := None)\<rparr>\<rparr>))"

text \<open>
  What the Consensus Module does with an entry handed to \<^verbatim>\<open>raft.Apply\<close>: either the
  entry is committed and delivered to the State Machine's Apply on this node, or the submission
  fails (leadership lost, enqueue timeout, shutdown), the future carries the error and the entry
  never reaches the State Machine.
\<close>

datatype submission = Committed | SubmitFailed error

definition settle :: "submission \<Rightarrow> logEntry \<Rightarrow> server \<Rightarrow> server" where
  "settle sub en s = (case sub of Committed \<Rightarrow> fsmApply en s | SubmitFailed err \<Rightarrow> s)"

section \<open>Command and dispatchToLeader\<close>

text \<open>Durations are nanoseconds, as \<^verbatim>\<open>time.Duration\<close> counts them.\<close>

definition second :: nat where
  "second = 1000000000"

definition minute :: nat where
  "minute = 60 * second"

definition commandTimeout :: nat where
  "commandTimeout = 1 * minute"

text \<open>
  \<^verbatim>\<open>s.raft.Apply(cmdBytes, commandTimeout)\<close>: the entry is handed to the Consensus Module.
  The source drops the future the call returns.
\<close>

definition raft_Apply :: "logEntry \<Rightarrow> nat \<Rightarrow> server \<Rightarrow> server" where
  "raft_Apply en t s = s\<lparr>raft := (raft s)\<lparr>raftCalls := raftCalls (raft s) @ [CallApply en t]\<rparr>\<rparr>"

text \<open>How \<^verbatim>\<open>%s\<close> prints an address that may be nil.\<close>

definition showAddr :: "addr option \<Rightarrow> string" where
  "showAddr a = (case a of None \<Rightarrow> ''%!s(<nil>)'' | Some l \<Rightarrow> l)"

definition logf :: "string \<Rightarrow> server \<Rightarrow> server" where
  "logf line s = s\<lparr>lg := lg s @ [line]\<rparr>"

text \<open>
  The tail of dispatchToLeader, once a connection is cached: allocate the callback, forward the
  command, cancel the callback when the write fails. A nil \<^verbatim>\<open>leaderConn\<close> cannot reach this
  point in the source (it is either non-nil already or was just assigned from a successful
  \<^verbatim>\<open>newConnToLeader\<close>); the model keeps the case as a nil dereference.
\<close>

definition forwardOnConn ::
  "env \<Rightarrow> server \<Rightarrow> string \<Rightarrow> bytes list \<Rightarrow> (commandCallback option \<times> error option) outcome" where
  "forwardOnConn e s cmd args =
     (let (cb, s1) = newCommand s
      in case leaderConn s1 of
           None \<Rightarrow> Fault NilDereference
         | Some lc \<Rightarrow>
             (case forwardCommand e lc cb cmd args of
                Some err \<Rightarrow> Returned (None, Some err) (cancel cb s1)
              | None \<Rightarrow> Returned (Some cb, None) s1))"

text \<open>The message an error prints as.\<close>

fun errorText :: "error \<Rightarrow> string" where
  "errorText (Error m) = m"

text \<open>
  One call of \<^verbatim>\<open>s.Leader()\<close> inside dispatchToLeader, at place \<open>r\<close>: the leader the
  Consensus Module reports by then, and the node with that report.
\<close>

definition readLeader :: "env \<Rightarrow> leaderRead \<Rightarrow> server \<Rightarrow> addr option \<times> server" where
  "readLeader e r s =
     (case leaderChange e r of
        None \<Rightarrow> (server_Leader s, s)
      | Some l \<Rightarrow> (l, s\<lparr>raft := (raft s)\<lparr>raftLeader := l\<rparr>\<rparr>))"

text \<open>
  The reconnect test of dispatchToLeader, with Go's left-to-right short-circuit evaluation:
  \<^verbatim>\<open>s.leaderConn == nil || s.Leader() == nil || s.Leader().String() != s.leaderConn.remoteAddr().String()\<close>.
  The third operand calls \<^verbatim>\<open>s.Leader()\<close> again and calls \<^verbatim>\<open>String()\<close> on the
  result: a method call on a nil interface value panics.
\<close>

definition mustReconnect :: "env \<Rightarrow> server \<Rightarrow> bool outcome" where
  "mustReconnect e s =
     (case leaderConn s of
        None \<Rightarrow> Returned True s
      | Some lc \<Rightarrow>
          (let (l1, s1) = readLeader e AtNilTest s
           in case l1 of
                None \<Rightarrow> Returned True s1
              | Some a1 \<Rightarrow>
                  (let (l2, s2) = readLeader e AtCompare s1
                   in case l2 of
                        None \<Rightarrow> Fault NilDereference
                      | Some a2 \<Rightarrow> Returned (a2 \<noteq> remoteAddr lc) s2)))"

text \<open>
  The start of the reconnect branch: when a connection is cached, the leader change is logged
  (with the leader read for the log line) and the stale connection is closed (the handle stays
  in \<^verbatim>\<open>s.leaderConn\<close> until a new one replaces it).
\<close>

definition closeStale :: "env \<Rightarrow> server \<Rightarrow> server" where
  "closeStale e s =
     (case leaderConn s of
        None \<Rightarrow> s
      | Some lc \<Rightarrow>
          (let (l, s1) = readLeader e AtChangeLog s
           in (logf (''Leader changed, reconnecting, was: '' @ remoteAddr lc @ '', now ''
                     @ showAddr l) s1)
                \<lparr>leaderConn := Some (lc\<lparr>connClosed := True\<rparr>)\<rparr>))"

text \<open>
  dispatchToLeader (the lock it holds is not modelled: one call runs at a time). Every
  \<^verbatim>\<open>s.Leader().String()\<close> reads the leader anew and panics when the read gives nil: in the
  argument of \<^verbatim>\<open>Dial\<close>, in the error message after a failed dial, and in the log line
  after a failed handshake. When \<^verbatim>\<open>newConnToLeader\<close> fails, the nil handle it returns with
  the error is stored in \<^verbatim>\<open>s.leaderConn\<close> before the log line is written; the line names
  the node's own address, which is the listener's address that NewDB also gives to the State
  Machine.
\<close>

definition dispatchToLeader ::
  "env \<Rightarrow> server \<Rightarrow> string \<Rightarrow> bytes list \<Rightarrow> (commandCallback option \<times> error option) outcome" where
  "dispatchToLeader e s cmd args =
     (case mustReconnect e s of
        Fault f \<Rightarrow> Fault f
      | Returned False s0 \<Rightarrow> forwardOnConn e s0 cmd args
      | Returned True s0 \<Rightarrow>
          (let s1 = closeStale e s0;
               (l, s2) = readLeader e AtDial s1
           in case l of
                None \<Rightarrow> Fault NilDereference
              | Some a \<Rightarrow>
                  (case dial e a of
                     Inl err \<Rightarrow>
                       (let (l3, s3) = readLeader e AtDialError s2
                        in case l3 of
                             None \<Rightarrow> Fault NilDereference
                           | Some a3 \<Rightarrow>
                               Returned
                                 (None, Some (Error (''Couldn't connect to leader at '' @ a3))) s3)
                   | Inr newConn \<Rightarrow>
                       (case newConnToLeader e newConn of
                          Inl err \<Rightarrow>
                            (let (l3, s3) = readLeader e AtHandshakeLog (s2\<lparr>leaderConn := None\<rparr>)
                             in case l3 of
                                  None \<Rightarrow> Fault NilDereference
                                | Some a3 \<Rightarrow>
                                    Returned (None, Some err)
                                      (logf (''Got error connecting to leader '' @ a3
                                             @ '' from follower '' @ stateAddr (state s3)
                                             @ '' : '' @ errorText err) s3))
                        | Inr lc \<Rightarrow> forwardOnConn e (s2\<lparr>leaderConn := Some lc\<rparr>) cmd args))))"

text \<open>
  Command. On the leader the callback's channel is returned right after the submission. On
  any other node the command is dispatched to the leader; on a dispatch error a callback that
  came back non-nil is cancelled and a fresh channel holding the error is returned.
\<close>

definition Command :: "env \<Rightarrow> server \<Rightarrow> string \<Rightarrow> bytes list \<Rightarrow> chan outcome" where
  "Command e s cmd args =
     (if IsLeader s then
        (let (cb, s1) = newCommand s;
             cmdBytes = bytesForCommand (originAddr cb) (reqNo cb) cmd args;
             s2 = raft_Apply cmdBytes commandTimeout s1
         in Returned (result cb) s2)
      else
        (case dispatchToLeader e s cmd args of
           Fault f \<Rightarrow> Fault f
         | Returned (cbo, Some err) s1 \<Rightarrow>
             (let s2 = (case cbo of Some cb \<Rightarrow> cancel cb s1 | None \<Rightarrow> s1);
                  (ret, s3) = makeChan s2;
                  s4 = send ret \<lparr>Response = None, Err = Some err\<rparr> s3
              in Returned ret s4)
         | Returned (Some cb, None) s1 \<Rightarrow> Returned (result cb) s1
         | Returned (None, None) s1 \<Rightarrow> Fault NilDereference))"

section \<open>Construction: NewDB and newRaft\<close>

text \<open>
  What the environment answers during construction: which \<^verbatim>\<open>os.MkdirAll\<close> calls fail,
  whether the State Machine, the stream layers, the log store, the snapshot store, the peer
  store and \<^verbatim>\<open>raft.NewRaft\<close> can be built, how \<^verbatim>\<open>net.ResolveTCPAddr\<close> resolves a
  peer, what \<^verbatim>\<open>raft.DefaultConfig()\<close> and \<^verbatim>\<open>defaultCommands()\<close> return, the address
  of the listener, and, for the wait loop, the clock when the loop is entered, what the
  \<open>k\<close>-th call of \<^verbatim>\<open>raft.Leader()\<close> reports and by how many nanoseconds the \<open>k\<close>-th pass
  through the loop body exceeds the second it sleeps.
\<close>

record bootEnv =
  mkdirAllErr :: "string \<Rightarrow> error option"
  newFlotillaStateErr :: "string set \<Rightarrow> string \<Rightarrow> error option"
  newMultiStreamErr :: "error option"
  newMDBStoreErr :: "string \<Rightarrow> error option"
  newSnapshotStoreErr :: "string \<Rightarrow> error option"
  resolveTCPAddr :: "string \<Rightarrow> error + addr"
  setPeersErr :: "addr list \<Rightarrow> error option"
  getPeersErr :: "error option"
  defaultConfig :: raftConfig
  newRaftErr :: "error option"
  defaultCommands :: "string \<rightharpoonup> executor"
  listenAddr :: addr
  clockStart :: nat
  leaderAt :: "nat \<Rightarrow> addr option"
  sleepOver :: "nat \<Rightarrow> nat"

text \<open>
  \<^verbatim>\<open>os.MkdirAll(path, 0755)\<close> creates the directory and every missing parent. The file
  system is the set of directories that exist, each under its clean name: the components of
  the path joined by single slashes, so that repeated and trailing slashes do not matter
  (paths with \<^verbatim>\<open>.\<close> or \<^verbatim>\<open>..\<close> components are outside the model).
  \<open>components cur path\<close> splits a path at its slashes, \<open>cur\<close> being the component read so
  far; \<open>dirsOf path\<close> lists the directories on the way to \<open>path\<close>, the path itself last.
\<close>

fun components :: "string \<Rightarrow> string \<Rightarrow> string list" where
  "components cur [] = (if cur = [] then [] else [cur])"
| "components cur (c # cs) =
     (if c = CHR ''/''
      then (if cur = [] then components [] cs else cur # components [] cs)
      else components (cur @ [c]) cs)"

fun dirsFrom :: "string \<Rightarrow> string list \<Rightarrow> string list" where
  "dirsFrom pre [] = []"
| "dirsFrom pre (d # ds) = (pre @ d) # dirsFrom (pre @ d @ ''/'') ds"

definition dirsOf :: "string \<Rightarrow> string list" where
  "dirsOf path =
     dirsFrom (case path of [] \<Rightarrow> [] | c # cs \<Rightarrow> (if c = CHR ''/'' then ''/'' else []))
       (components [] path)"

definition MkdirAll :: "bootEnv \<Rightarrow> string set \<Rightarrow> string \<Rightarrow> error + string set" where
  "MkdirAll b fs path =
     (case mkdirAllErr b path of
        Some err \<Rightarrow> Inl err
      | None \<Rightarrow> Inr (fs \<union> set (dirsOf path)))"

text \<open>The first lines of NewDB: "make sure dirs exist".\<close>

definition makeDirs :: "bootEnv \<Rightarrow> string set \<Rightarrow> string \<Rightarrow> error + string set" where
  "makeDirs b fs dataDir =
     (let raftDir = dataDir @ ''/raft'';
          mdbDir = dataDir @ ''/mdb''
      in case MkdirAll b fs raftDir of
           Inl err \<Rightarrow> Inl err
         | Inr fs1 \<Rightarrow>
             (case MkdirAll b fs1 dataDir of
                Inl err \<Rightarrow> Inl err
              | Inr fs2 \<Rightarrow> Inr fs2))"

text \<open>
  The merge loop of NewDB. \<open>commands\<close> lists the entries of the caller's map in the order
  the \<^verbatim>\<open>range\<close> loop visits them (a Go map has each key once; the order is not fixed).
  The log lines written are collected next to the registry.
\<close>

definition overrideWarning :: "string \<Rightarrow> string" where
  "overrideWarning cmd = ''WARNING overriding command '' @ cmd @ '' with user-defined command''"

fun mergeCommands ::
  "(string \<rightharpoonup> executor) \<Rightarrow> string list \<Rightarrow> (string \<times> executor) list
     \<Rightarrow> (string \<rightharpoonup> executor) \<times> string list" where
  "mergeCommands reg lgs [] = (reg, lgs)"
| "mergeCommands reg lgs ((cmd, cmdExec) # rest) =
     (case reg cmd of
        Some old \<Rightarrow> mergeCommands (reg(cmd \<mapsto> cmdExec)) (lgs @ [overrideWarning cmd]) rest
      | None \<Rightarrow> mergeCommands (reg(cmd \<mapsto> cmdExec)) lgs rest)"

text \<open>
  Modelled from the spec: \<^verbatim>\<open>newFlotillaState\<close> (state.go is not among the sources) builds
  the State Machine bound to the embedded store under \<open>mdbDir\<close>, with the merged registry and
  the node's address, an empty pending table and a fresh counter; opening the store can fail.
\<close>

definition newFlotillaState ::
  "bootEnv \<Rightarrow> string set \<Rightarrow> string \<Rightarrow> (string \<rightharpoonup> executor) \<Rightarrow> addr \<Rightarrow> error + flotillaState" where
  "newFlotillaState b fs mdbDir reg a =
     (case newFlotillaStateErr b fs mdbDir of
        Some err \<Rightarrow> Inl err
      | None \<Rightarrow> Inr \<lparr>stateAddr = a, reqCounter = 0, callbacks = Map.empty, commandsReg = reg\<rparr>)"

text \<open>The peer resolution loop of newRaft: it stops at the first address that fails.\<close>

fun resolvePeers :: "(string \<Rightarrow> error + addr) \<Rightarrow> string list \<Rightarrow> error + addr list" where
  "resolvePeers r [] = Inr []"
| "resolvePeers r (p # ps) =
     (case r p of
        Inl err \<Rightarrow> Inl err
      | Inr a \<Rightarrow> (case resolvePeers r ps of Inl err \<Rightarrow> Inl err | Inr as \<Rightarrow> Inr (a # as)))"

text \<open>\<^verbatim>\<open>raft.PeerContained\<close>: some peer prints as the given address.\<close>

fun PeerContained :: "addr list \<Rightarrow> addr \<Rightarrow> bool" where
  "PeerContained [] peer = False"
| "PeerContained (p # ps) peer = (if p = peer then True else PeerContained ps peer)"

text \<open>How \<^verbatim>\<open>%+v\<close> prints a slice of strings: the elements in brackets, a space between.\<close>

fun joinSpace :: "string list \<Rightarrow> string" where
  "joinSpace [] = []"
| "joinSpace [x] = x"
| "joinSpace (x # y # ys) = x @ '' '' @ joinSpace (y # ys)"

definition showStrings :: "string list \<Rightarrow> string" where
  "showStrings xs = ''['' @ joinSpace xs @ '']''"

text \<open>The configuration newRaft hands to \<^verbatim>\<open>raft.NewRaft\<close>.\<close>

definition setupConfig :: "raftConfig \<Rightarrow> string list \<Rightarrow> raftConfig" where
  "setupConfig dflt ps = (if length ps = 1 then dflt\<lparr>EnableSingleNode := True\<rparr> else dflt)"

text \<open>
  The wait loop of newRaft. \<open>k\<close> counts the polls made so far and \<open>now\<close> is the clock;
  \<^verbatim>\<open>time.Sleep(1 * time.Second)\<close> and the rest of the pass take \<open>second + over k\<close>
  nanoseconds, and \<^verbatim>\<open>time.Now().After(timeout)\<close> is \<open>timeout < now\<close>. The result
  records the poll at which the loop ended and the clock then.
\<close>

datatype waitResult = LeaderSeen addr nat nat | TimedOut nat nat

function waitForLeader ::
  "(nat \<Rightarrow> addr option) \<Rightarrow> (nat \<Rightarrow> nat) \<Rightarrow> nat \<Rightarrow> nat \<Rightarrow> nat \<Rightarrow> waitResult" where
  "waitForLeader leader over timeout k now =
     (case leader k of
        Some l \<Rightarrow> LeaderSeen l k now
      | None \<Rightarrow>
          (if timeout < now + second + over k then TimedOut k (now + second + over k)
           else waitForLeader leader over timeout (Suc k) (now + second + over k)))"
  by pat_completeness auto
termination
  by (relation "measure (\<lambda>(leader, over, timeout, k, now). Suc timeout - now)")
     (auto simp: second_def)

declare waitForLeader.simps [simp del]


text \<open>
  Every poll of the wait loop writes a line to the logger, naming the leader it read and the
  local address. \<open>pollLog\<close> lists the lines of a run of the loop: one for each poll up to
  the poll at which the loop ended.
\<close>

definition identifiedLine :: "addr option \<Rightarrow> addr \<Rightarrow> string" where
  "identifiedLine leader localAddr =
     ''server.newRaft Identified leader '' @ showAddr leader @ '' from host '' @ localAddr"

definition pollLog :: "bootEnv \<Rightarrow> addr \<Rightarrow> string list" where
  "pollLog b localAddr =
     (case waitForLeader (leaderAt b) (sleepOver b) (clockStart b + 1 * minute) 0 (clockStart b) of
        LeaderSeen l k t \<Rightarrow> map (\<lambda>j. identifiedLine (leaderAt b j) localAddr) [0..<Suc k]
      | TimedOut k t \<Rightarrow> map (\<lambda>j. identifiedLine (leaderAt b j) localAddr) [0..<Suc k])"

text \<open>
  newRaft. \<open>path\<close> is the consensus directory and \<open>localAddr\<close> the address of the transport
  (\<^verbatim>\<open>trans.LocalAddr()\<close>). The peer store returns the peers it was given. The node that
  \<^verbatim>\<open>raft.NewRaft\<close> builds runs with the given configuration; after the wait loop it
  reports the leader the loop saw, and it is the leader itself when that address is its own.
  The \<^verbatim>\<open>Close\<close> calls on the error paths release resources and are left out; the lines
  the wait loop logs are those of \<open>pollLog\<close>.
\<close>

definition newRaft :: "bootEnv \<Rightarrow> string list \<Rightarrow> string \<Rightarrow> addr \<Rightarrow> error + raftNode" where
  "newRaft b ps path localAddr =
     (case newMDBStoreErr b path of
        Some err \<Rightarrow> Inl err
      | None \<Rightarrow>
     (case newSnapshotStoreErr b path of
        Some err \<Rightarrow> Inl err
      | None \<Rightarrow>
     (case resolvePeers (resolveTCPAddr b) ps of
        Inl err \<Rightarrow> Inl err
      | Inr peerAddrs \<Rightarrow>
     (case setPeersErr b peerAddrs of
        Some err \<Rightarrow> Inl err
      | None \<Rightarrow>
     (case getPeersErr b of
        Some err \<Rightarrow> Inl err
      | None \<Rightarrow>
     (if \<not> PeerContained peerAddrs localAddr
      then Inl (Error (''Localhost '' @ localAddr @ '' not included in peers '' @ showStrings ps))
      else
     (let raftCfg = setupConfig (defaultConfig b) ps
      in case newRaftErr b of
           Some err \<Rightarrow> Inl err
         | None \<Rightarrow>
             (case waitForLeader (leaderAt b) (sleepOver b) (clockStart b + 1 * minute) 0
                     (clockStart b) of
                TimedOut k t \<Rightarrow> Inl (Error ''Timed out with no leader elected after 1 minute!'')
              | LeaderSeen l k t \<Rightarrow>
                  Inr \<lparr>raftState = (if l = localAddr then Leader else Follower),
                       raftLeader = Some l, raftPeers = peerAddrs,
                       raftConf = raftCfg, raftCalls = []\<rparr>))))))))"

text \<open>
  NewDB: the directories, the merged registry, the State Machine, the stream layers, the
  Consensus Module, and the server built from them. The logger of the node has received the
  warnings of the merge loop and then the lines of newRaft's wait loop. The accept loop that
  NewDB starts in the background before it returns is not modelled.
\<close>

definition NewDB ::
  "bootEnv \<Rightarrow> string set \<Rightarrow> string list \<Rightarrow> string \<Rightarrow> (string \<times> executor) list \<Rightarrow> error + server" where
  "NewDB b fs ps dataDir commands =
     (let raftDir = dataDir @ ''/raft'';
          mdbDir = dataDir @ ''/mdb''
      in case makeDirs b fs dataDir of
           Inl err \<Rightarrow> Inl err
         | Inr fs1 \<Rightarrow>
     (let (commandsForStateMachine, warnings) = mergeCommands (defaultCommands b) [] commands
      in case newFlotillaState b fs1 mdbDir commandsForStateMachine (listenAddr b) of
           Inl err \<Rightarrow> Inl err
         | Inr st \<Rightarrow>
     (case newMultiStreamErr b of
        Some err \<Rightarrow> Inl err
      | None \<Rightarrow>
     (case newRaft b ps raftDir (listenAddr b) of
        Inl err \<Rightarrow> Inl err
      | Inr r \<Rightarrow>
          Inr \<lparr>raft = r, state = st, peers = ps, leaderConn = None,
               chans = Map.empty, nextChan = 0,
               lg = warnings @ pollLog b (listenAddr b)\<rparr>))))"

section \<open>Example nodes and environments\<close>

definition exRaft :: raftNode where
  "exRaft = \<lparr>raftState = Candidate, raftLeader = None,
             raftPeers = [''10.0.0.1:7000'', ''10.0.0.2:7000''],
             raftConf = \<lparr>EnableSingleNode = False\<rparr>, raftCalls = []\<rparr>"

definition exState :: flotillaState where
  "exState = \<lparr>stateAddr = ''10.0.0.1:7000'', reqCounter = 0, callbacks = Map.empty,
              commandsReg = Map.empty\<rparr>"

text \<open>
  A node in the middle of an election: it is a candidate, the Consensus Module reports no
  leader, and no connection to a leader is cached.
\<close>

definition exServer :: server where
  "exServer = \<lparr>raft = exRaft, state = exState,
               peers = [''10.0.0.1:7000'', ''10.0.0.2:7000''], leaderConn = None,
               chans = Map.empty, nextChan = 0, lg = []\<rparr>"

text \<open>The same node as a follower of 10.0.0.2, and as the leader.\<close>

definition exFollower :: server where
  "exFollower = exServer\<lparr>raft := exRaft\<lparr>raftState := Follower,
                                          raftLeader := Some ''10.0.0.2:7000''\<rparr>\<rparr>"

definition exLeader :: server where
  "exLeader = exServer\<lparr>raft := exRaft\<lparr>raftState := Leader,
                                        raftLeader := Some ''10.0.0.1:7000''\<rparr>\<rparr>"

text \<open>
  Environments in which the Consensus Module keeps its report during the call: one in which
  every dial is refused, one in which the dial succeeds and the write of the forwarded command
  fails, and one in which both succeed.
\<close>

definition exEnvDialFails :: env where
  "exEnvDialFails =
     \<lparr>dial = (\<lambda>a. Inl (Error ''connection refused'')),
      newConnToLeader = (\<lambda>c. case c of Conn a \<Rightarrow> Inr \<lparr>remoteAddr = a, connClosed = False\<rparr>),
      forwardCommand = (\<lambda>lc cb cmd args. None),
      removePeerFuture = (\<lambda>a. None),
      leaderChange = (\<lambda>r. None)\<rparr>"

definition exEnvWriteFails :: env where
  "exEnvWriteFails =
     \<lparr>dial = (\<lambda>a. Inr (Conn a)),
      newConnToLeader = (\<lambda>c. case c of Conn a \<Rightarrow> Inr \<lparr>remoteAddr = a, connClosed = False\<rparr>),
      forwardCommand = (\<lambda>lc cb cmd args. Some (Error ''broken pipe'')),
      removePeerFuture = (\<lambda>a. Some (Error ''leadership lost'')),
      leaderChange = (\<lambda>r. None)\<rparr>"

definition exEnvOk :: env where
  "exEnvOk =
     \<lparr>dial = (\<lambda>a. Inr (Conn a)),
      newConnToLeader = (\<lambda>c. case c of Conn a \<Rightarrow> Inr \<lparr>remoteAddr = a, connClosed = False\<rparr>),
      forwardCommand = (\<lambda>lc cb cmd args. None),
      removePeerFuture = (\<lambda>a. None),
      leaderChange = (\<lambda>r. None)\<rparr>"

text \<open>
  An environment in which the leader has become unreachable: the dial times out, and by the
  time it has, the Consensus Module has given up the leader and reports none.
\<close>

definition exEnvLeaderLost :: env where
  "exEnvLeaderLost =
     \<lparr>dial = (\<lambda>a. Inl (Error ''i/o timeout'')),
      newConnToLeader = (\<lambda>c. case c of Conn a \<Rightarrow> Inr \<lparr>remoteAddr = a, connClosed = False\<rparr>),
      forwardCommand = (\<lambda>lc cb cmd args. None),
      removePeerFuture = (\<lambda>a. None),
      leaderChange = (\<lambda>r. if r = AtDialError then Some None else None)\<rparr>"

definition exLeaderAt :: "nat \<Rightarrow> addr option" where
  "exLeaderAt k = (if 2 \<le> k then Some ''10.0.0.1:7000'' else None)"

text \<open>
  A construction environment: every step succeeds, except that the embedded store cannot be
  opened in a directory that does not exist and that the host "nohost" does not resolve; the
  defaults register Noop and Put; a leader is reported from the third poll on.
\<close>

definition noopExec :: executor where
  "noopExec args = \<lparr>Response = Some [], Err = None\<rparr>"

definition userExec :: executor where
  "userExec args = \<lparr>Response = Some (concat args), Err = None\<rparr>"

definition exBoot :: bootEnv where
  "exBoot =
     \<lparr>mkdirAllErr = (\<lambda>p. None),
      newFlotillaStateErr = (\<lambda>fs d. if set (dirsOf d) \<subseteq> fs then None
                                    else Some (Error ''no such file or directory'')),
      newMultiStreamErr = None,
      newMDBStoreErr = (\<lambda>p. None),
      newSnapshotStoreErr = (\<lambda>p. None),
      resolveTCPAddr = (\<lambda>p. if p = ''nohost:7000'' then Inl (Error ''no such host'') else Inr p),
      setPeersErr = (\<lambda>as. None),
      getPeersErr = None,
      defaultConfig = \<lparr>EnableSingleNode = False\<rparr>,
      newRaftErr = None,
      defaultCommands = [''Noop'' \<mapsto> noopExec, ''Put'' \<mapsto> noopExec],
      listenAddr = ''10.0.0.1:7000'',
      clockStart = 0,
      leaderAt = exLeaderAt,
      sleepOver = (\<lambda>k. 0)\<rparr>"

section \<open>Unfolding sets for the examples\<close>

lemmas ex_defs = exRaft_def exState_def exServer_def exFollower_def exLeader_def
  exEnvDialFails_def exEnvWriteFails_def exEnvOk_def exEnvLeaderLost_def

lemmas eval_defs = Command_def IsLeader_def dispatchToLeader_def mustReconnect_def
  server_Leader_def makeChan_def send_def forwardOnConn_def newCommand_def cancel_def Let_def
  raft_Apply_def bytesForCommand_def logf_def showAddr_def cancelResult_def settle_def
  fsmApply_def closeStale_def readLeader_def

lemmas boot_defs = exBoot_def exLeaderAt_def noopExec_def userExec_def minute_def second_def
  newRaft_def NewDB_def makeDirs_def MkdirAll_def newFlotillaState_def setupConfig_def
  waitForLeader.simps overrideWarning_def dirsOf_def showStrings_def pollLog_def
  identifiedLine_def showAddr_def

section \<open>RemovePeer is effective on the leader only\<close>

text \<open>
  C4. On a node whose role is not Leader, RemovePeer returns nil and leaves the node as it
  was: no request reaches the Consensus Module and the peer set is the same. On the leader the
  removal is submitted to the Consensus Module (it is the last recorded request) and
  the error returned is the error of that future.
\<close>

theorem RemovePeer_leader_only:
  "(raftState (raft s) \<noteq> Leader \<longrightarrow>
      RemovePeer e s a = (None, s)) \<and>
   (raftState (raft s) = Leader \<longrightarrow>
      fst (RemovePeer e s a) = removePeerFuture e a \<and>
      raftCalls (raft (snd (RemovePeer e s a))) = raftCalls (raft s) @ [CallRemovePeer a])"
  by (simp add: RemovePeer_def IsLeader_def raft_RemovePeer_def split: option.split)

theorem RemovePeer_leader_only_witness:
  "raftState (raft exFollower) \<noteq> Leader \<and>
   RemovePeer exEnvOk exFollower ''10.0.0.2:7000'' = (None, exFollower) \<and>
   raftState (raft exLeader) = Leader \<and>
   fst (RemovePeer exEnvWriteFails exLeader ''10.0.0.2:7000'') = Some (Error ''leadership lost'') \<and>
   raftCalls (raft (snd (RemovePeer exEnvWriteFails exLeader ''10.0.0.2:7000'')))
     = [CallRemovePeer ''10.0.0.2:7000'']"
  using RemovePeer_leader_only [of exFollower exEnvOk "''10.0.0.2:7000''"]
        RemovePeer_leader_only [of exLeader exEnvWriteFails "''10.0.0.2:7000''"]
  by (simp add: ex_defs)

section \<open>The callback table and dispatchToLeader\<close>

lemma newCommand_fields:
  "newCommand s = (cb, s1) \<Longrightarrow>
     cb = \<lparr>originAddr = stateAddr (state s), reqNo = Suc (reqCounter (state s)), result = nextChan s\<rparr> \<and>
     callbacks (state s1) = (callbacks (state s))((stateAddr (state s), Suc (reqCounter (state s))) \<mapsto> cb) \<and>
     chans s1 = (chans s)(nextChan s \<mapsto> []) \<and>
     nextChan s1 = Suc (nextChan s) \<and>
     raft s1 = raft s \<and> leaderConn s1 = leaderConn s \<and> lg s1 = lg s \<and> peers s1 = peers s \<and>
     commandsReg (state s1) = commandsReg (state s) \<and> stateAddr (state s1) = stateAddr (state s)"
  by (auto simp: newCommand_def makeChan_def Let_def)

lemma cancel_after_newCommand:
  "newCommand s = (cb, s1) \<Longrightarrow>
     callbacks (state (cancel cb s1)) = (callbacks (state s))((originAddr cb, reqNo cb) := None) \<and>
     chans (cancel cb s1) = (chans s)(nextChan s \<mapsto> [cancelResult]) \<and>
     nextChan (cancel cb s1) = Suc (nextChan s) \<and>
     raft (cancel cb s1) = raft s \<and> leaderConn (cancel cb s1) = leaderConn s \<and>
     commandsReg (state (cancel cb s1)) = commandsReg (state s)"
  by (auto simp: newCommand_def makeChan_def Let_def cancel_def send_def cancelResult_def)

lemma forwardOnConn_result:
  assumes "leaderConn s = Some lc" and "newCommand s = (cb, s1)"
  shows "forwardOnConn e s cmd args =
           (case forwardCommand e lc cb cmd args of
              Some err \<Rightarrow> Returned (None, Some err) (cancel cb s1)
            | None \<Rightarrow> Returned (Some cb, None) s1)"
  using assms newCommand_fields [OF assms(2)]
  by (auto simp: forwardOnConn_def split: option.split)

lemma forwardOnConn_shape:
  "forwardOnConn e s cmd args = Returned (cbo, eo) s1 \<Longrightarrow>
     (\<exists>cb. cbo = Some cb \<and> eo = None \<and> newCommand s = (cb, s1)) \<or>
     (\<exists>err cb s0. cbo = None \<and> eo = Some err \<and> newCommand s = (cb, s0) \<and> s1 = cancel cb s0)"
proof -
  assume r: "forwardOnConn e s cmd args = Returned (cbo, eo) s1"
  obtain cb s0 where nc: "newCommand s = (cb, s0)"
    by (cases "newCommand s")
  show ?thesis
  proof (cases "leaderConn s0")
    case None
    with r nc show ?thesis by (simp add: forwardOnConn_def)
  next
    case (Some lc)
    note lc = this
    show ?thesis
    proof (cases "forwardCommand e lc cb cmd args")
      case None
      with r nc lc show ?thesis by (simp add: forwardOnConn_def)
    next
      case (Some err)
      with r nc lc have "Returned (None, Some err) (cancel cb s0) = Returned (cbo, eo) s1"
        by (simp add: forwardOnConn_def)
      then have "cbo = None" "eo = Some err" "s1 = cancel cb s0"
        by simp_all
      with nc show ?thesis by blast
    qed
  qed
qed

lemma forwardOnConn_post:
  assumes "forwardOnConn e s cmd args = Returned (cbo, eo) s1"
  shows "(\<exists>cb. cbo = Some cb \<and> eo = None \<and>
              callbacks (state s1) (originAddr cb, reqNo cb) = Some cb) \<or>
         (cbo = None \<and> eo \<noteq> None \<and>
            (\<forall>k. callbacks (state s1) k \<noteq> None \<longrightarrow> callbacks (state s) k \<noteq> None) \<and>
            nextChan s1 = Suc (nextChan s) \<and> chans s1 (nextChan s) = Some [cancelResult])"
  using forwardOnConn_shape [OF assms]
proof (elim disjE exE conjE)
  fix cb
  assume "cbo = Some cb" "eo = None" "newCommand s = (cb, s1)"
  with newCommand_fields [of s cb s1] show ?thesis by simp
next
  fix err cb s0
  assume "cbo = None" "eo = Some err" "newCommand s = (cb, s0)" "s1 = cancel cb s0"
  with cancel_after_newCommand [of s cb s0] show ?thesis by simp
qed


lemma readLeader_fields:
  "readLeader e r s = (l, s') \<Longrightarrow>
     state s' = state s \<and> chans s' = chans s \<and> nextChan s' = nextChan s \<and>
     leaderConn s' = leaderConn s \<and> lg s' = lg s"
  by (auto simp: readLeader_def split: option.splits)

lemma mustReconnect_fields:
  "mustReconnect e s = Returned b s0 \<Longrightarrow>
     state s0 = state s \<and> chans s0 = chans s \<and> nextChan s0 = nextChan s \<and>
     leaderConn s0 = leaderConn s"
  by (auto simp: mustReconnect_def readLeader_def Let_def split: option.splits prod.splits)

lemma mustReconnect_False_cached:
  "mustReconnect e s = Returned False s0 \<Longrightarrow> leaderConn s0 \<noteq> None"
  by (auto simp: mustReconnect_def readLeader_def Let_def split: option.splits prod.splits)

lemma closeStale_fields:
  "state (closeStale e s) = state s \<and> chans (closeStale e s) = chans s \<and>
   nextChan (closeStale e s) = nextChan s"
  by (auto simp: closeStale_def readLeader_def logf_def Let_def split: option.splits prod.splits)

lemma dispatchToLeader_post:
  assumes r: "dispatchToLeader e s cmd args = Returned (cbo, eo) s1"
  shows "(\<exists>cb. cbo = Some cb \<and> eo = None \<and>
              callbacks (state s1) (originAddr cb, reqNo cb) = Some cb) \<or>
         (cbo = None \<and> eo \<noteq> None \<and>
            (\<forall>k. callbacks (state s1) k \<noteq> None \<longrightarrow> callbacks (state s) k \<noteq> None) \<and>
            (\<forall>c. nextChan s \<le> c \<and> c < nextChan s1 \<longrightarrow> chans s1 c = Some [cancelResult]))"
proof (cases "mustReconnect e s")
  case (Fault f)
  with r show ?thesis by (simp add: dispatchToLeader_def)
next
  case (Returned b s0)
  note f0 = mustReconnect_fields [OF Returned]
  show ?thesis
  proof (cases b)
    case False
    with r Returned have "forwardOnConn e s0 cmd args = Returned (cbo, eo) s1"
      by (simp add: dispatchToLeader_def)
    from forwardOnConn_post [OF this] f0 show ?thesis
      by (auto simp: less_Suc_eq_le)
  next
    case True
    obtain l s2 where rd: "readLeader e AtDial (closeStale e s0) = (l, s2)"
      by (cases "readLeader e AtDial (closeStale e s0)")
    from readLeader_fields [OF rd] closeStale_fields [of e s0] f0
    have f2: "state s2 = state s" "chans s2 = chans s" "nextChan s2 = nextChan s"
      by simp_all
    show ?thesis
    proof (cases l)
      case None
      with r Returned True rd show ?thesis by (simp add: dispatchToLeader_def)
    next
      case (Some a)
      note l = this
      show ?thesis
      proof (cases "dial e a")
        case (Inl x)
        obtain l3 s3 where rd3: "readLeader e AtDialError s2 = (l3, s3)"
          by (cases "readLeader e AtDialError s2")
        from readLeader_fields [OF rd3] f2
        have f3: "state s3 = state s" "chans s3 = chans s" "nextChan s3 = nextChan s"
          by simp_all
        from r Returned True rd l Inl rd3 f3 show ?thesis
          by (cases l3) (auto simp: dispatchToLeader_def)
      next
        case (Inr newConn)
        note dl = this
        show ?thesis
        proof (cases "newConnToLeader e newConn")
          case (Inl x)
          obtain l3 s3 where rd3: "readLeader e AtHandshakeLog (s2\<lparr>leaderConn := None\<rparr>) = (l3, s3)"
            by (cases "readLeader e AtHandshakeLog (s2\<lparr>leaderConn := None\<rparr>)")
          from readLeader_fields [OF rd3] f2
          have f3: "state s3 = state s" "chans s3 = chans s" "nextChan s3 = nextChan s"
            by simp_all
          from r Returned True rd l dl Inl rd3 f3 show ?thesis
            by (cases l3) (auto simp: dispatchToLeader_def logf_def)
        next
          case (Inr lc)
          with r Returned True rd l dl
          have "forwardOnConn e (s2\<lparr>leaderConn := Some lc\<rparr>) cmd args = Returned (cbo, eo) s1"
            by (simp add: dispatchToLeader_def)
          from forwardOnConn_post [OF this] f2 show ?thesis
            by (auto simp: less_Suc_eq_le)
        qed
      qed
    qed
  qed
qed

lemma Command_on_dispatch_error:
  assumes "\<not> IsLeader s" and "dispatchToLeader e s cmd args = Returned (None, Some err) s1"
  shows "Command e s cmd args =
           Returned (nextChan s1)
             (s1\<lparr>chans := (chans s1)(nextChan s1 \<mapsto> [\<lparr>Response = None, Err = Some err\<rparr>]),
                 nextChan := Suc (nextChan s1)\<rparr>)"
  using assms by (simp add: Command_def makeChan_def send_def)

lemma Command_delivers_dispatch_error:
  assumes "\<not> IsLeader s"
    and "dispatchToLeader e s cmd args = Returned (cbo, Some err) s1"
  shows "\<exists>ret s'. Command e s cmd args = Returned ret s' \<and>
           chans s' ret = Some [\<lparr>Response = None, Err = Some err\<rparr>] \<and>
           (\<forall>k. callbacks (state s') k \<noteq> None \<longrightarrow> callbacks (state s) k \<noteq> None) \<and>
           (\<forall>c. nextChan s \<le> c \<and> c < ret \<longrightarrow> chans s' c = Some [cancelResult])"
proof -
  from dispatchToLeader_post [OF assms(2)]
  have cbo: "cbo = None"
    and pend: "\<forall>k. callbacks (state s1) k \<noteq> None \<longrightarrow> callbacks (state s) k \<noteq> None"
    and chs: "\<forall>c. nextChan s \<le> c \<and> c < nextChan s1 \<longrightarrow> chans s1 c = Some [cancelResult]"
    by auto
  let ?s' = "s1\<lparr>chans := (chans s1)(nextChan s1 \<mapsto> [\<lparr>Response = None, Err = Some err\<rparr>]),
                 nextChan := Suc (nextChan s1)\<rparr>"
  from assms cbo have "Command e s cmd args = Returned (nextChan s1) ?s'"
    by (simp add: Command_on_dispatch_error)
  moreover have "chans ?s' (nextChan s1) = Some [\<lparr>Response = None, Err = Some err\<rparr>]"
    by simp
  moreover from pend
  have "\<forall>k. callbacks (state ?s') k \<noteq> None \<longrightarrow> callbacks (state s) k \<noteq> None"
    by simp
  moreover from chs
  have "\<forall>c. nextChan s \<le> c \<and> c < nextChan s1 \<longrightarrow> chans ?s' c = Some [cancelResult]"
    by simp
  ultimately show ?thesis by blast
qed

text \<open>
  A failed write on the cached connection always comes back as an error Result: the
  connection is cached and the reconnect test, which decided not to reconnect, is the only
  place that read the leader.
\<close>

lemma Command_write_failure:
  assumes "\<not> IsLeader s" and "mustReconnect e s = Returned False s0"
    and "leaderConn s0 = Some lc" and "newCommand s0 = (cb, s1)"
    and "forwardCommand e lc cb cmd args = Some err"
  shows "\<exists>ret s'. Command e s cmd args = Returned ret s' \<and>
           chans s' ret = Some [\<lparr>Response = None, Err = Some err\<rparr>] \<and>
           chans s' (result cb) = Some [cancelResult] \<and>
           callbacks (state s') (originAddr cb, reqNo cb) = None"
proof -
  from assms have d: "dispatchToLeader e s cmd args = Returned (None, Some err) (cancel cb s1)"
    by (simp add: dispatchToLeader_def forwardOnConn_result)
  from newCommand_fields [OF assms(4)] cancel_after_newCommand [OF assms(4)]
  have "chans (cancel cb s1) (result cb) = Some [cancelResult]"
    "callbacks (state (cancel cb s1)) (originAddr cb, reqNo cb) = None"
    "nextChan (cancel cb s1) = Suc (result cb)"
    by simp_all
  with Command_on_dispatch_error [OF assms(1) d] show ?thesis
    by simp
qed

text \<open>
  A failed dial comes back as an error Result when the leader is still reported at the two
  reads that follow the reconnect test.
\<close>

lemma Command_dial_failure:
  assumes "\<not> IsLeader s" and "leaderConn s = None"
    and "readLeader e AtDial s = (Some a, s2)" and "dial e a = Inl x"
    and "readLeader e AtDialError s2 = (Some a3, s3)"
  shows "Command e s cmd args =
           Returned (nextChan s)
             (s3\<lparr>chans := (chans s)(nextChan s \<mapsto>
                        [\<lparr>Response = None,
                          Err = Some (Error (''Couldn't connect to leader at '' @ a3))\<rparr>]),
                 nextChan := Suc (nextChan s)\<rparr>)"
proof -
  from assms
  have d: "dispatchToLeader e s cmd args =
             Returned (None, Some (Error (''Couldn't connect to leader at '' @ a3))) s3"
    by (simp add: dispatchToLeader_def mustReconnect_def closeStale_def)
  from readLeader_fields [OF assms(3)] readLeader_fields [OF assms(5)]
  have "chans s3 = chans s" "nextChan s3 = nextChan s" by simp_all
  with Command_on_dispatch_error [OF assms(1) d] show ?thesis
    by simp
qed

lemma forwardOnConn_registry:
  "forwardOnConn e s cmd args = Returned r s1 \<Longrightarrow>
     commandsReg (state s1) = commandsReg (state s)"
  by (auto simp: forwardOnConn_def newCommand_def makeChan_def cancel_def send_def Let_def
           split: option.splits prod.splits)

lemma dispatchToLeader_registry:
  assumes r: "dispatchToLeader e s cmd args = Returned r s1"
  shows "commandsReg (state s1) = commandsReg (state s)"
proof (cases "mustReconnect e s")
  case (Fault f)
  with r show ?thesis by (simp add: dispatchToLeader_def)
next
  case (Returned b s0)
  note f0 = mustReconnect_fields [OF Returned]
  show ?thesis
  proof (cases b)
    case False
    with r Returned have "forwardOnConn e s0 cmd args = Returned r s1"
      by (simp add: dispatchToLeader_def)
    from forwardOnConn_registry [OF this] f0 show ?thesis
      by simp
  next
    case True
    obtain l s2 where rd: "readLeader e AtDial (closeStale e s0) = (l, s2)"
      by (cases "readLeader e AtDial (closeStale e s0)")
    from readLeader_fields [OF rd] closeStale_fields [of e s0] f0
    have f2: "state s2 = state s"
      by simp
    show ?thesis
    proof (cases l)
      case None
      with r Returned True rd show ?thesis by (simp add: dispatchToLeader_def)
    next
      case (Some a)
      note l = this
      show ?thesis
      proof (cases "dial e a")
        case (Inl x)
        obtain l3 s3 where rd3: "readLeader e AtDialError s2 = (l3, s3)"
          by (cases "readLeader e AtDialError s2")
        from readLeader_fields [OF rd3] f2 have f3: "state s3 = state s"
          by simp
        from r Returned True rd l Inl rd3 f3 show ?thesis
          by (cases l3) (auto simp: dispatchToLeader_def)
      next
        case (Inr newConn)
        note dl = this
        show ?thesis
        proof (cases "newConnToLeader e newConn")
          case (Inl x)
          obtain l3 s3 where rd3: "readLeader e AtHandshakeLog (s2\<lparr>leaderConn := None\<rparr>) = (l3, s3)"
            by (cases "readLeader e AtHandshakeLog (s2\<lparr>leaderConn := None\<rparr>)")
          from readLeader_fields [OF rd3] f2 have f3: "state s3 = state s"
            by simp
          from r Returned True rd l dl Inl rd3 f3 show ?thesis
            by (cases l3) (auto simp: dispatchToLeader_def logf_def)
        next
          case (Inr lc)
          with r Returned True rd l dl
          have "forwardOnConn e (s2\<lparr>leaderConn := Some lc\<rparr>) cmd args = Returned r s1"
            by (simp add: dispatchToLeader_def)
          from forwardOnConn_registry [OF this] f2 show ?thesis
            by simp
        qed
      qed
    qed
  qed
qed

lemma Command_keeps_registry:
  assumes c: "Command e s cmd args = Returned ch s'"
  shows "commandsReg (state s') = commandsReg (state s)"
proof (cases "IsLeader s")
  case True
  with c show ?thesis
    by (auto simp: Command_def newCommand_def makeChan_def raft_Apply_def Let_def
             split: prod.splits)
next
  case False
  show ?thesis
  proof (cases "dispatchToLeader e s cmd args")
    case (Fault f)
    with c False show ?thesis by (simp add: Command_def)
  next
    case (Returned r s1)
    obtain cbo eo where r: "r = (cbo, eo)" by (cases r)
    note reg = dispatchToLeader_registry [OF Returned]
    from Returned r dispatchToLeader_post [of e s cmd args cbo eo s1]
    have shape: "(cbo \<noteq> None \<and> eo = None) \<or> (cbo = None \<and> eo \<noteq> None)"
      by auto
    from c False Returned r shape reg show ?thesis
      by (auto simp: Command_def makeChan_def send_def Let_def)
  qed
qed

lemma Command_leader_lifecycle:
  assumes "IsLeader s"
  shows "\<exists>ch s1 en r.
           Command e s cmd args = Returned ch s1 \<and>
           raftCalls (raft s1) = raftCalls (raft s) @ [CallApply en commandTimeout] \<and>
           chans s1 ch = Some [] \<and>
           chans (settle Committed en s1) ch = Some [r] \<and>
           chans (settle (SubmitFailed err) en s1) ch = Some []"
  using assms by (simp add: eval_defs)

section \<open>Command: delivery of the Result\<close>

text \<open>
  C1. Claimed: every invocation of Command delivers exactly one Result on the channel it
  returns, also when the consensus submission itself fails. On the leader the source drops the
  future of \<^verbatim>\<open>raft.Apply\<close>: when the submission fails, the entry never reaches the State
  Machine and nothing cancels the callback. The evaluation below runs Command on a leader and
  lets the submission fail: the submitted entry is recorded, the returned channel stays empty
  and the callback stays in the pending table.
\<close>

theorem Command_leader_failed_submission_delivers_nothing:
  "IsLeader exLeader \<and>
   (case Command exEnvOk exLeader ''Set'' [] of
      Fault f \<Rightarrow> False
    | Returned ch s1 \<Rightarrow>
        raftCalls (raft s1) =
          [CallApply \<lparr>entryOrigin = ''10.0.0.1:7000'', entryReqNo = 1, entryCmd = ''Set'',
                      entryArgs = []\<rparr> commandTimeout] \<and>
        chans (settle (SubmitFailed (Error ''leadership lost''))
                 \<lparr>entryOrigin = ''10.0.0.1:7000'', entryReqNo = 1, entryCmd = ''Set'',
                  entryArgs = []\<rparr> s1) ch = Some [] \<and>
        callbacks (state (settle (SubmitFailed (Error ''leadership lost''))
                 \<lparr>entryOrigin = ''10.0.0.1:7000'', entryReqNo = 1, entryCmd = ''Set'',
                  entryArgs = []\<rparr> s1)) (''10.0.0.1:7000'', 1)
          = Some \<lparr>originAddr = ''10.0.0.1:7000'', reqNo = 1, result = ch\<rparr>)"
  by (simp add: ex_defs eval_defs)

text \<open>
  C2. Claimed: on a node that is not the leader, a failed dial or a failed write makes Command
  return a channel that already holds the dispatch error. After a failed dial the source builds
  the error message from a fresh \<^verbatim>\<open>s.Leader().String()\<close>. On the follower below the dial
  to the reported leader times out, and by then the Consensus Module has given up that leader
  and reports none: the call for the message panics and Command returns no channel. With the
  leader still reported, the same follower gets the channel holding the dial error.
\<close>

theorem Command_failed_dial_after_leader_loss_faults:
  "\<not> IsLeader exFollower \<and> leaderConn exFollower = None \<and>
   server_Leader exFollower = Some ''10.0.0.2:7000'' \<and>
   leaderChange exEnvLeaderLost AtDial = None \<and>
   dial exEnvLeaderLost ''10.0.0.2:7000'' = Inl (Error ''i/o timeout'') \<and>
   leaderChange exEnvLeaderLost AtDialError = Some None \<and>
   Command exEnvLeaderLost exFollower ''Set'' [] = Fault NilDereference \<and>
   (case Command exEnvDialFails exFollower ''Set'' [] of
      Fault f \<Rightarrow> False
    | Returned ret s' \<Rightarrow>
        chans s' ret =
          Some [\<lparr>Response = None,
                 Err = Some (Error ''Couldn't connect to leader at 10.0.0.2:7000'')\<rparr>])"
  by (simp add: ex_defs eval_defs)

text \<open>
  C3. Claimed: on a node that is not the leader Command always returns a channel, and with no
  cached connection and no leader reported, dispatch surfaces an error Result. The reconnect
  test of the source does check \<^verbatim>\<open>s.Leader() == nil\<close>, but the branch it guards then calls
  \<^verbatim>\<open>s.Leader().String()\<close>: on the node below, which has no cached connection and no leader,
  Command panics with a nil dereference instead of returning.
\<close>

theorem Command_without_leader_faults:
  "\<not> IsLeader exServer \<and> leaderConn exServer = None \<and> server_Leader exServer = None \<and>
   Command exEnvOk exServer ''Set'' [] = Fault NilDereference"
  by (simp add: ex_defs eval_defs)

text \<open>
  C10. Claimed: every call of dispatchToLeader returns either a callback with a nil error or a
  nil callback with an error. On the node below, which has no cached connection while no
  leader is reported, the call panics at the argument of \<^verbatim>\<open>Dial\<close> and returns no pair at
  all; on the follower whose leader is gone by the time the dial has failed, it panics while
  it builds the error it was about to return. (Whenever the call does return, the pair has
  one of the two shapes and what it allocated is cancelled: lemma \<open>dispatchToLeader_post\<close>.)
\<close>

theorem dispatchToLeader_without_leader_returns_no_pair:
  "leaderConn exServer = None \<and> server_Leader exServer = None \<and>
   dispatchToLeader exEnvOk exServer ''Set'' [] = Fault NilDereference \<and>
   leaderConn exFollower = None \<and>
   dial exEnvLeaderLost ''10.0.0.2:7000'' = Inl (Error ''i/o timeout'') \<and>
   dispatchToLeader exEnvLeaderLost exFollower ''Set'' [] = Fault NilDereference"
  by (simp add: ex_defs eval_defs)

section \<open>Construction\<close>

subsection \<open>Helper lemmas\<close>






lemma mergeCommands_lookup:
  "distinct (map fst cs) \<Longrightarrow>
     fst (mergeCommands reg lgs cs) name =
       (case map_of cs name of Some ex \<Rightarrow> Some ex | None \<Rightarrow> reg name)"
proof (induction cs arbitrary: reg lgs)
  case Nil
  show ?case by simp
next
  case (Cons c cs)
  obtain cmd cmdExec where c: "c = (cmd, cmdExec)" by (cases c)
  from Cons.prems c have d: "distinct (map fst cs)" and n: "map_of cs cmd = None"
    by (auto simp: map_of_eq_None_iff)
  have ih: "\<And>l. fst (mergeCommands (reg(cmd \<mapsto> cmdExec)) l cs) name =
              (case map_of cs name of Some ex \<Rightarrow> Some ex | None \<Rightarrow> (reg(cmd \<mapsto> cmdExec)) name)"
    by (rule Cons.IH [OF d])
  have unf: "mergeCommands reg lgs (c # cs) =
               mergeCommands (reg(cmd \<mapsto> cmdExec))
                 (case reg cmd of Some old \<Rightarrow> lgs @ [overrideWarning cmd] | None \<Rightarrow> lgs) cs"
    using c by (simp split: option.split)
  show ?case
    unfolding unf ih using n c by (auto split: option.splits)
qed

lemma mergeCommands_warnings:
  "distinct (map fst cs) \<Longrightarrow>
     snd (mergeCommands reg lgs cs) =
       lgs @ map overrideWarning (filter (\<lambda>c. reg c \<noteq> None) (map fst cs))"
proof (induction cs arbitrary: reg lgs)
  case Nil
  show ?case by simp
next
  case (Cons c cs)
  obtain cmd cmdExec where c: "c = (cmd, cmdExec)" by (cases c)
  from Cons.prems c have d: "distinct (map fst cs)" and n: "cmd \<notin> set (map fst cs)"
    by auto
  from n have f: "filter (\<lambda>x. (reg(cmd \<mapsto> cmdExec)) x \<noteq> None) (map fst cs)
                  = filter (\<lambda>x. reg x \<noteq> None) (map fst cs)"
    by (intro filter_cong) auto
  have ih: "\<And>l. snd (mergeCommands (reg(cmd \<mapsto> cmdExec)) l cs) =
              l @ map overrideWarning (filter (\<lambda>x. (reg(cmd \<mapsto> cmdExec)) x \<noteq> None) (map fst cs))"
    by (rule Cons.IH [OF d])
  have unf: "mergeCommands reg lgs (c # cs) =
               mergeCommands (reg(cmd \<mapsto> cmdExec))
                 (case reg cmd of Some old \<Rightarrow> lgs @ [overrideWarning cmd] | None \<Rightarrow> lgs) cs"
    using c by (simp split: option.split)
  show ?case
    unfolding unf ih f using c by (cases "reg cmd") auto
qed

lemma NewDB_registry:
  "NewDB b fs ps dataDir cmds = Inr s \<Longrightarrow>
     commandsReg (state s) = fst (mergeCommands (defaultCommands b) [] cmds) \<and>
     lg s = snd (mergeCommands (defaultCommands b) [] cmds) @ pollLog b (listenAddr b)"
  by (auto simp: NewDB_def newFlotillaState_def Let_def
           split: sum.splits prod.splits option.splits)

text \<open>
  The caller's map enters NewDB through the merge only: construction with it is construction
  without it, with the merged registry in the State Machine and the warnings at the head of
  the log.
\<close>

lemma NewDB_by_merge:
  "NewDB b fs ps dataDir cmds =
     (case NewDB b fs ps dataDir [] of
        Inl err \<Rightarrow> Inl err
      | Inr s0 \<Rightarrow>
          Inr (s0\<lparr>state := (state s0)\<lparr>commandsReg := fst (mergeCommands (defaultCommands b) [] cmds)\<rparr>,
                  lg := snd (mergeCommands (defaultCommands b) [] cmds) @ lg s0\<rparr>))"
  by (auto simp: NewDB_def newFlotillaState_def Let_def
           split: sum.splits prod.splits option.splits)

lemma newRaft_config:
  "newRaft b ps path a = Inr r \<Longrightarrow> raftConf r = setupConfig (defaultConfig b) ps"
  by (auto simp: newRaft_def Let_def split: option.splits sum.splits if_splits waitResult.splits)

lemma resolvePeers_fails:
  "isl (resolvePeers r ps) \<longleftrightarrow> (\<exists>p\<in>set ps. isl (r p))"
  by (induction ps) (auto split: sum.splits)

lemma PeerContained_iff: "PeerContained as a \<longleftrightarrow> a \<in> set as"
  by (induction as) auto

lemma NewDB_fails_with_newRaft:
  "isl (newRaft b ps (dataDir @ ''/raft'') (listenAddr b)) \<Longrightarrow> isl (NewDB b fs ps dataDir cmds)"
  by (auto simp: NewDB_def Let_def split: sum.splits option.splits prod.splits)

subsection \<open>Single-node bootstrap\<close>

text \<open>
  C5. In the configuration newRaft hands to the Consensus Module the single-node flag is set
  when the peer list has exactly one entry; for every other length, zero included, the
  configuration is the default one. So, the default having the flag off, the flag is on if and
  only if the list has exactly one entry. A node that newRaft returns runs with that
  configuration.
\<close>

theorem single_node_flag:
  "(length ps = 1 \<longrightarrow> EnableSingleNode (setupConfig dflt ps)) \<and>
   (length ps \<noteq> 1 \<longrightarrow> setupConfig dflt ps = dflt) \<and>
   (\<not> EnableSingleNode dflt \<longrightarrow>
      (EnableSingleNode (setupConfig dflt ps) \<longleftrightarrow> length ps = 1)) \<and>
   (\<forall>b path a r. newRaft b ps path a = Inr r \<longrightarrow>
       raftConf r = setupConfig (defaultConfig b) ps)"
  by (auto simp: setupConfig_def newRaft_config)

theorem single_node_flag_witness:
  "EnableSingleNode (setupConfig \<lparr>EnableSingleNode = False\<rparr> [''10.0.0.1:7000'']) \<and>
   length ([] :: string list) \<noteq> 1 \<and>
   setupConfig \<lparr>EnableSingleNode = False\<rparr> [] = \<lparr>EnableSingleNode = False\<rparr> \<and>
   length [''10.0.0.1:7000'', ''10.0.0.2:7000''] \<noteq> 1 \<and>
   setupConfig \<lparr>EnableSingleNode = False\<rparr> [''10.0.0.1:7000'', ''10.0.0.2:7000'']
     = \<lparr>EnableSingleNode = False\<rparr> \<and>
   (case newRaft exBoot [''10.0.0.1:7000''] ''/data/raft'' ''10.0.0.1:7000'' of
      Inl err \<Rightarrow> False
    | Inr r \<Rightarrow> EnableSingleNode (raftConf r))"
  using single_node_flag [where dflt = "\<lparr>EnableSingleNode = False\<rparr>" and ps = "[''10.0.0.1:7000'']"]
        single_node_flag [where dflt = "\<lparr>EnableSingleNode = False\<rparr>" and ps = "[]"]
        single_node_flag [where dflt = "\<lparr>EnableSingleNode = False\<rparr>"
                            and ps = "[''10.0.0.1:7000'', ''10.0.0.2:7000'']"]
  by (simp add: boot_defs)

subsection \<open>Peers that do not resolve, or that leave out the local address\<close>

text \<open>
  C6. If some peer address fails to resolve, or all resolve and the local transport address
  is not among them, newRaft returns an error, and so does NewDB: the result is an error and
  not a node.
\<close>

theorem construction_rejects_bad_peers:
  assumes "(\<exists>p\<in>set ps. isl (resolveTCPAddr b p)) \<or>
           (\<exists>as. resolvePeers (resolveTCPAddr b) ps = Inr as \<and> \<not> PeerContained as (listenAddr b))"
  shows "isl (newRaft b ps path (listenAddr b)) \<and> isl (NewDB b fs ps dataDir cmds)"
proof -
  have "isl (newRaft b ps p (listenAddr b))" for p
    using assms
  proof
    assume "\<exists>p\<in>set ps. isl (resolveTCPAddr b p)"
    then have "isl (resolvePeers (resolveTCPAddr b) ps)"
      by (simp add: resolvePeers_fails)
    then show ?thesis
      by (auto simp: newRaft_def split: option.splits sum.splits)
  next
    assume "\<exists>as. resolvePeers (resolveTCPAddr b) ps = Inr as \<and> \<not> PeerContained as (listenAddr b)"
    then show ?thesis
      by (auto simp: newRaft_def split: option.splits sum.splits)
  qed
  then show ?thesis
    by (simp add: NewDB_fails_with_newRaft)
qed

theorem construction_rejects_bad_peers_witness:
  "isl (resolveTCPAddr exBoot ''nohost:7000'') \<and>
   newRaft exBoot [''10.0.0.1:7000'', ''nohost:7000''] ''/data/raft'' (listenAddr exBoot)
     = Inl (Error ''no such host'') \<and>
   isl (NewDB exBoot {''/data/mdb''} [''10.0.0.1:7000'', ''nohost:7000''] ''/data'' []) \<and>
   resolvePeers (resolveTCPAddr exBoot) [''10.0.0.2:7000''] = Inr [''10.0.0.2:7000''] \<and>
   \<not> PeerContained [''10.0.0.2:7000''] (listenAddr exBoot) \<and>
   newRaft exBoot [''10.0.0.2:7000''] ''/data/raft'' (listenAddr exBoot)
     = Inl (Error ''Localhost 10.0.0.1:7000 not included in peers [10.0.0.2:7000]'') \<and>
   isl (NewDB exBoot {''/data/mdb''} [''10.0.0.2:7000''] ''/data'' [])"
  using construction_rejects_bad_peers [of "[''10.0.0.1:7000'', ''nohost:7000'']" exBoot
          "''/data/raft''" "{''/data/mdb''}" "''/data''" "[]"]
        construction_rejects_bad_peers [of "[''10.0.0.2:7000'']" exBoot
          "''/data/raft''" "{''/data/mdb''}" "''/data''" "[]"]
  by (simp add: boot_defs)

subsection \<open>Waiting for a leader\<close>



subsection \<open>The data directories\<close>

text \<open>
  C8. Claimed: NewDB creates both dataDir/raft and dataDir/mdb before any component is built.
  The source computes \<^verbatim>\<open>mdbDir\<close> but passes \<^verbatim>\<open>dataDir\<close> to the second
  \<^verbatim>\<open>os.MkdirAll\<close>: starting from an empty file system, the directories after the first
  lines of NewDB are /data and /data/raft, /data/mdb is missing, and a State Machine whose store
  needs its directory cannot be built; it can when the directory was there beforehand.
\<close>

theorem NewDB_does_not_create_mdb_dir:
  "makeDirs exBoot {} ''/data'' = Inr {''/data'', ''/data/raft''} \<and>
   ''/data/mdb'' \<notin> {''/data'', ''/data/raft''} \<and>
   NewDB exBoot {} [''10.0.0.1:7000''] ''/data'' [] = Inl (Error ''no such file or directory'') \<and>
   isl (NewDB exBoot {''/data/mdb''} [''10.0.0.1:7000''] ''/data'' []) = False"
  by (simp add: boot_defs insert_commute)

subsection \<open>The command registry\<close>

text \<open>
  C9. For a caller's map (each name once), NewDB builds what it builds without the map, except
  that the State Machine holds the merged registry and the logger starts with the warnings:
  the registry gives every name the caller supplied the caller's executor, also when the
  defaults have the name, and every other name what the defaults give it; one warning is
  logged for each name present in both, in the order the loop met them. Command never changes
  the registry of the node.
\<close>

theorem merged_registry:
  assumes "distinct (map fst cmds)"
  shows "NewDB b fs ps dataDir cmds =
           (case NewDB b fs ps dataDir [] of
              Inl err \<Rightarrow> Inl err
            | Inr s0 \<Rightarrow>
                Inr (s0\<lparr>state := (state s0)\<lparr>commandsReg :=
                                 (\<lambda>name. case map_of cmds name of
                                            Some ex \<Rightarrow> Some ex
                                          | None \<Rightarrow> defaultCommands b name)\<rparr>,
                        lg := map overrideWarning
                                (filter (\<lambda>c. defaultCommands b c \<noteq> None) (map fst cmds))
                              @ lg s0\<rparr>)) \<and>
         (\<forall>s. NewDB b fs ps dataDir cmds = Inr s \<longrightarrow>
            (\<forall>name ex. (name, ex) \<in> set cmds \<longrightarrow> commandsReg (state s) name = Some ex) \<and>
            (\<forall>name. name \<notin> fst ` set cmds \<longrightarrow>
               commandsReg (state s) name = defaultCommands b name) \<and>
            (\<forall>name. name \<in> fst ` set cmds \<and> defaultCommands b name \<noteq> None \<longrightarrow>
               overrideWarning name \<in> set (lg s))) \<and>
         (\<forall>e s cmd args ch s'. Command e s cmd args = Returned ch s' \<longrightarrow>
            commandsReg (state s') = commandsReg (state s))"
proof (intro conjI allI impI)
  have reg: "fst (mergeCommands (defaultCommands b) [] cmds) =
               (\<lambda>name. case map_of cmds name of
                          Some ex \<Rightarrow> Some ex | None \<Rightarrow> defaultCommands b name)"
    using mergeCommands_lookup [OF assms, of "defaultCommands b" "[]"] by (intro ext) simp
  have warn: "snd (mergeCommands (defaultCommands b) [] cmds) =
                map overrideWarning (filter (\<lambda>c. defaultCommands b c \<noteq> None) (map fst cmds))"
    using mergeCommands_warnings [OF assms, of "defaultCommands b" "[]"] by simp
  show "NewDB b fs ps dataDir cmds =
           (case NewDB b fs ps dataDir [] of
              Inl err \<Rightarrow> Inl err
            | Inr s0 \<Rightarrow>
                Inr (s0\<lparr>state := (state s0)\<lparr>commandsReg :=
                                 (\<lambda>name. case map_of cmds name of
                                            Some ex \<Rightarrow> Some ex
                                          | None \<Rightarrow> defaultCommands b name)\<rparr>,
                        lg := map overrideWarning
                                (filter (\<lambda>c. defaultCommands b c \<noteq> None) (map fst cmds))
                              @ lg s0\<rparr>))"
    using NewDB_by_merge [of b fs ps dataDir cmds] by (simp only: reg warn)
next
  fix s name ex
  assume ok: "NewDB b fs ps dataDir cmds = Inr s" and "(name, ex) \<in> set cmds"
  with assms have "map_of cmds name = Some ex" by simp
  with mergeCommands_lookup [OF assms, of "defaultCommands b" "[]" name] NewDB_registry [OF ok]
  show "commandsReg (state s) name = Some ex" by simp
next
  fix s name
  assume ok: "NewDB b fs ps dataDir cmds = Inr s" and "name \<notin> fst ` set cmds"
  then have "map_of cmds name = None" by (simp add: map_of_eq_None_iff)
  with mergeCommands_lookup [OF assms, of "defaultCommands b" "[]" name] NewDB_registry [OF ok]
  show "commandsReg (state s) name = defaultCommands b name" by simp
next
  fix s name
  assume ok: "NewDB b fs ps dataDir cmds = Inr s"
    and both: "name \<in> fst ` set cmds \<and> defaultCommands b name \<noteq> None"
  from mergeCommands_warnings [OF assms, of "defaultCommands b" "[]"] NewDB_registry [OF ok]
  have "lg s = map overrideWarning (filter (\<lambda>c. defaultCommands b c \<noteq> None) (map fst cmds))
                 @ pollLog b (listenAddr b)"
    by simp
  with both show "overrideWarning name \<in> set (lg s)"
    by auto
next
  fix e s cmd args ch s'
  assume "Command e s cmd args = Returned ch s'"
  then show "commandsReg (state s') = commandsReg (state s)"
    by (rule Command_keeps_registry)
qed

text \<open>
  A node built with a caller's map that overrides the default Put and adds Get: the State
  Machine of the node holds the caller's Put and Get and the default Noop, and the logger of
  the node holds the warning for Put and then the three lines of the wait loop.
\<close>

theorem merged_registry_witness:
  "distinct (map fst [(''Put'', userExec), (''Get'', userExec)]) \<and>
   (case NewDB exBoot {''/data/mdb''} [''10.0.0.1:7000''] ''/data''
           [(''Put'', userExec), (''Get'', userExec)] of
      Inl err \<Rightarrow> False
    | Inr s \<Rightarrow>
        commandsReg (state s) ''Put'' = Some userExec \<and>
        commandsReg (state s) ''Get'' = Some userExec \<and>
        commandsReg (state s) ''Noop'' = Some noopExec \<and>
        commandsReg (state s) ''Del'' = None \<and>
        lg s = [''WARNING overriding command Put with user-defined command'',
                ''server.newRaft Identified leader %!s(<nil>) from host 10.0.0.1:7000'',
                ''server.newRaft Identified leader %!s(<nil>) from host 10.0.0.1:7000'',
                ''server.newRaft Identified leader 10.0.0.1:7000 from host 10.0.0.1:7000'']) \<and>
   (case NewDB exBoot {''/data/mdb''} [''10.0.0.1:7000''] ''/data'' [] of
      Inl err \<Rightarrow> False
    | Inr s0 \<Rightarrow>
        commandsReg (state s0) ''Put'' = Some noopExec \<and>
        commandsReg (state s0) ''Get'' = None \<and>
        lg s0 = [''server.newRaft Identified leader %!s(<nil>) from host 10.0.0.1:7000'',
                 ''server.newRaft Identified leader %!s(<nil>) from host 10.0.0.1:7000'',
                 ''server.newRaft Identified leader 10.0.0.1:7000 from host 10.0.0.1:7000''])"
proof -
  have d: "distinct (map fst [(''Put'', userExec), (''Get'', userExec)])"
    by simp
  note m = merged_registry [OF d, of exBoot "{''/data/mdb''}" "[''10.0.0.1:7000'']" "''/data''"]
  obtain s0 where base: "NewDB exBoot {''/data/mdb''} [''10.0.0.1:7000''] ''/data'' [] = Inr s0"
    by (cases "NewDB exBoot {''/data/mdb''} [''10.0.0.1:7000''] ''/data'' []")
       (simp_all add: boot_defs numeral_2_eq_2)
  have base_reg: "commandsReg (state s0) ''Put'' = Some noopExec"
    "commandsReg (state s0) ''Get'' = None"
    and base_lg: "lg s0 =
           [''server.newRaft Identified leader %!s(<nil>) from host 10.0.0.1:7000'',
            ''server.newRaft Identified leader %!s(<nil>) from host 10.0.0.1:7000'',
            ''server.newRaft Identified leader 10.0.0.1:7000 from host 10.0.0.1:7000'']"
    using base by (auto simp add: boot_defs numeral_2_eq_2)
  from m base obtain s where
    built: "NewDB exBoot {''/data/mdb''} [''10.0.0.1:7000''] ''/data''
              [(''Put'', userExec), (''Get'', userExec)] = Inr s"
    and lg: "lg s = map overrideWarning
               (filter (\<lambda>c. defaultCommands exBoot c \<noteq> None)
                  (map fst [(''Put'', userExec), (''Get'', userExec)])) @ lg s0"
    by simp
  from m built have reg:
    "commandsReg (state s) ''Put'' = Some userExec"
    "commandsReg (state s) ''Get'' = Some userExec"
    "commandsReg (state s) ''Noop'' = defaultCommands exBoot ''Noop''"
    "commandsReg (state s) ''Del'' = defaultCommands exBoot ''Del''"
    by auto
  from lg base_lg
  have "lg s = [''WARNING overriding command Put with user-defined command'',
                ''server.newRaft Identified leader %!s(<nil>) from host 10.0.0.1:7000'',
                ''server.newRaft Identified leader %!s(<nil>) from host 10.0.0.1:7000'',
                ''server.newRaft Identified leader 10.0.0.1:7000 from host 10.0.0.1:7000'']"
    by (simp add: exBoot_def overrideWarning_def)
  with d base built reg base_reg base_lg show ?thesis
    by (simp add: exBoot_def)
qed

end
